theory Spec2Isabelle
  imports Main "HOL-Library.Product_Lexorder"
begin

section \<open>The message parser of the Diplomacy corpus (scripts/gameparser.py)\<close>

text \<open>
  The script reads a schedule of phase deadlines (class \<open>TimeList\<close>, one \<open>Time\<close> per
  line) and raw message blocks (class \<open>Message\<close>), and moves a message to the next
  season when it was sent after the Orders deadline of its nominal season.

  Conventions of the embedding.
  \<^item> The text the script reads (a schedule line, a message block) is a \<open>string\<close>: a
    character is a code point from 0 to 255. The whitespace test, the case mappings
    and the digits are those of Python 3 on these code points. Title-casing can leave
    this range (for three characters), so a title-cased value is the list of its code
    points, \<open>unicode\<close> below.
  \<^item> A function that can raise returns \<open>error + 'a\<close>: \<open>Inl e\<close> is the exception
    \<open>e\<close> leaving the function, \<open>Inr v\<close> is the normal return of \<open>v\<close>.
  \<^item> \<open>datetime.strptime(s, "%H:%M")\<close> yields a datetime on 1900-01-01; two such values
    compare as their (hour, minute) pairs, which is what \<open>datetime\<close> below is.
  \<^item> Reading a text file line by line is the list of its decoded lines, each with its
    line terminator.
\<close>

subsection \<open>Python values and exceptions\<close>

datatype error = ValueError | IndexError | StopIteration

text \<open>
  The values that reach the \<open>year\<close> parameter of \<open>after_deadline\<close>: a \<open>str\<close> or an
  \<open>int\<close>. Python's \<open>==\<close> between a \<open>str\<close> and an \<open>int\<close> is \<open>False\<close>, which is the
  distinctness of the two constructors.
\<close>

datatype pyval = PStr string | PInt int

type_synonym datetime = "nat \<times> nat"

type_synonym unicode = "nat list"

text \<open>
  Statements in sequence: the exception of the first leaves the function, otherwise
  the rest runs with the value.
\<close>

definition and_then :: "error + 'a \<Rightarrow> ('a \<Rightarrow> error + 'b) \<Rightarrow> error + 'b" where
  "and_then r f = (case r of Inl e \<Rightarrow> Inl e | Inr v \<Rightarrow> f v)"

subsection \<open>The string methods the script calls\<close>

text \<open>
  \<open>c.isspace()\<close>, the characters that \<open>strip()\<close> removes: the ASCII white space, the
  separators 0x1C to 0x1F, NEL (0x85) and the no-break space (0xA0).
\<close>

definition isspace :: "char \<Rightarrow> bool" where
  "isspace c = (c \<in> {CHR 0x09, CHR 0x0A, CHR 0x0B, CHR 0x0C, CHR 0x0D,
                       CHR 0x1C, CHR 0x1D, CHR 0x1E, CHR 0x1F, CHR '' '',
                       CHR 0x85, CHR 0xA0})"

text \<open>
  The white space that \<open>int\<close> accepts around a number: as above, without the
  separators 0x1C to 0x1F.
\<close>

definition int_isspace :: "char \<Rightarrow> bool" where
  "int_isspace c = (c \<in> {CHR 0x09, CHR 0x0A, CHR 0x0B, CHR 0x0C, CHR 0x0D, CHR '' '',
                           CHR 0x85, CHR 0xA0})"

definition isdigit :: "char \<Rightarrow> bool" where
  "isdigit c = (c \<in> set ''0123456789'')"

definition digit_value :: "char \<Rightarrow> nat" where
  "digit_value c = of_char c - 48"

text \<open>
  The lower-case mapping of one character: \<open>A\<close> to \<open>Z\<close> and the upper-case letters
  0xC0 to 0xDE (but not the multiplication sign 0xD7) move up by 32.
\<close>

definition lower_char :: "char \<Rightarrow> char" where
  "lower_char c =
     (let n = (of_char c :: nat)
      in if (65 \<le> n \<and> n \<le> 90) \<or> (192 \<le> n \<and> n \<le> 222 \<and> n \<noteq> 215)
         then char_of (n + 32) else c)"

text \<open>
  The title-case mapping of one character, as code points: \<open>a\<close> to \<open>z\<close> and the
  lower-case letters 0xE0 to 0xFE (but not the division sign 0xF7) move down by 32;
  the micro sign 0xB5 becomes U+039C, the sharp s 0xDF becomes \<open>Ss\<close>, and 0xFF
  becomes U+0178.
\<close>

definition title_char :: "char \<Rightarrow> unicode" where
  "title_char c =
     (let n = (of_char c :: nat)
      in if (97 \<le> n \<and> n \<le> 122) \<or> (224 \<le> n \<and> n \<le> 254 \<and> n \<noteq> 247) then [n - 32]
         else if n = 181 then [924]
         else if n = 223 then [83, 115]
         else if n = 255 then [376]
         else [n])"

text \<open>
  The cased characters: the letters of ASCII, the ordinal indicators 0xAA and 0xBA,
  the micro sign 0xB5, and 0xC0 to 0xFF without the two signs 0xD7 and 0xF7.
\<close>

definition iscased :: "char \<Rightarrow> bool" where
  "iscased c =
     (let n = (of_char c :: nat)
      in (65 \<le> n \<and> n \<le> 90) \<or> (97 \<le> n \<and> n \<le> 122) \<or> n = 170 \<or> n = 181 \<or> n = 186
         \<or> (192 \<le> n \<and> n \<noteq> 215 \<and> n \<noteq> 247))"

text \<open>\<open>s.strip()\<close>: leading and trailing whitespace removed.\<close>

definition str_strip :: "string \<Rightarrow> string" where
  "str_strip s = rev (dropWhile isspace (rev (dropWhile isspace s)))"

text \<open>\<open>s.lower()\<close>.\<close>

definition str_lower :: "string \<Rightarrow> string" where
  "str_lower s = map lower_char s"

text \<open>
  \<open>s.title()\<close>: a character is title-cased when the character before it is not
  cased, and lower-cased otherwise. The flag is "the previous character is cased".
\<close>

fun title_from :: "bool \<Rightarrow> string \<Rightarrow> unicode" where
  "title_from previous_is_cased [] = []"
| "title_from previous_is_cased (c # cs) =
     (if previous_is_cased then [of_char (lower_char c)] else title_char c)
       @ title_from (iscased c) cs"

definition str_title :: "string \<Rightarrow> unicode" where
  "str_title s = title_from False s"

text \<open>\<open>s.startswith(p)\<close>.\<close>

definition str_startswith :: "string \<Rightarrow> string \<Rightarrow> bool" where
  "str_startswith s p = (take (length p) s = p)"

text \<open>
  \<open>s.split(sep)\<close> for a separator: the pieces between the occurrences of \<open>sep\<close>,
  found from the left without overlap; empty pieces are kept, and a string without
  the separator is the single piece. Python raises ValueError on the empty separator;
  the script only passes literals and \<open>os.linesep\<close>, and the model returns the single
  piece there. \<open>cur\<close> is the piece being read, reversed.
\<close>

function split_from :: "string \<Rightarrow> string \<Rightarrow> string \<Rightarrow> string list" where
  "split_from sep cur [] = [rev cur]"
| "split_from sep cur (c # cs) =
     (if sep \<noteq> [] \<and> str_startswith (c # cs) sep
      then rev cur # split_from sep [] (drop (length sep) (c # cs))
      else split_from sep (c # cur) cs)"
  by pat_completeness auto
termination
  by (relation "measure (\<lambda>(sep, cur, s). length s)") auto

definition str_split :: "string \<Rightarrow> string \<Rightarrow> string list" where
  "str_split s sep = split_from sep [] s"

text \<open>\<open>sep.join(xs)\<close>.\<close>

fun str_join :: "string \<Rightarrow> string list \<Rightarrow> string" where
  "str_join sep [] = []"
| "str_join sep [x] = x"
| "str_join sep (x # y # ys) = x @ sep @ str_join sep (y # ys)"

text \<open>
  \<open>xs[i]\<close> with Python's indexing: a negative index counts from the end, an index out
  of range raises IndexError.
\<close>

definition getitem :: "'a list \<Rightarrow> int \<Rightarrow> error + 'a" where
  "getitem xs i =
     (if 0 \<le> i \<and> i < int (length xs) then Inr (xs ! nat i)
      else if i < 0 \<and> - i \<le> int (length xs) then Inr (xs ! nat (int (length xs) + i))
      else Inl IndexError)"

text \<open>
  \<open>int(s)\<close> in base 10 (Python 3.6 and later): the white space around the number is
  dropped, one sign is allowed, then decimal digits follow, where a single underscore
  may stand between two digits. Anything else raises ValueError. The limit that
  Python 3.11 puts on the number of digits is not part of the model.
\<close>

fun digits_from :: "nat \<Rightarrow> bool \<Rightarrow> string \<Rightarrow> nat option" where
  "digits_from n after_digit [] = (if after_digit then Some n else None)"
| "digits_from n after_digit (c # cs) =
     (if isdigit c then digits_from (10 * n + digit_value c) True cs
      else if c = CHR ''_'' \<and> after_digit then digits_from n False cs
      else None)"

definition py_int :: "string \<Rightarrow> error + int" where
  "py_int s =
     (case rev (dropWhile int_isspace (rev (dropWhile int_isspace s))) of
        [] \<Rightarrow> Inl ValueError
      | c # cs \<Rightarrow>
          if c = CHR ''-'' then
            (case digits_from 0 False cs of None \<Rightarrow> Inl ValueError | Some n \<Rightarrow> Inr (- int n))
          else if c = CHR ''+'' then
            (case digits_from 0 False cs of None \<Rightarrow> Inl ValueError | Some n \<Rightarrow> Inr (int n))
          else
            (case digits_from 0 False (c # cs) of None \<Rightarrow> Inl ValueError | Some n \<Rightarrow> Inr (int n)))"

text \<open>
  \<open>datetime.strptime(s, "%H:%M")\<close>. The format compiles to the regular expression
  \<open>(2[0-3]|[0-1]\d|\d):([0-5]\d|\d)\<close>, matched at the start of \<open>s\<close>; a string that does
  not match, or that goes on after the match, raises ValueError. \<open>minute_of\<close> is the
  second group together with the test that nothing follows it.
\<close>

definition minute_of :: "string \<Rightarrow> nat option" where
  "minute_of s =
     (case s of
        [] \<Rightarrow> None
      | [c] \<Rightarrow> if isdigit c then Some (digit_value c) else None
      | [c, d] \<Rightarrow>
          if c \<in> set ''012345'' \<and> isdigit d then Some (10 * digit_value c + digit_value d)
          else None
      | _ \<Rightarrow> None)"

definition hour_minute :: "nat \<Rightarrow> string \<Rightarrow> error + datetime" where
  "hour_minute h s = (case minute_of s of None \<Rightarrow> Inl ValueError | Some m \<Rightarrow> Inr (h, m))"

definition strptime :: "string \<Rightarrow> error + datetime" where
  "strptime s =
     (case s of
        a # b # c # rest \<Rightarrow>
          if a = CHR ''2'' \<and> b \<in> set ''0123'' \<and> c = CHR '':''
            then hour_minute (20 + digit_value b) rest
          else if a \<in> set ''01'' \<and> isdigit b \<and> c = CHR '':''
            then hour_minute (10 * digit_value a + digit_value b) rest
          else if isdigit a \<and> b = CHR '':''
            then hour_minute (digit_value a) (c # rest)
          else Inl ValueError
      | [a, b] \<Rightarrow> Inl ValueError
      | _ \<Rightarrow> Inl ValueError)"

subsection \<open>The deadline table: classes Time and TimeList\<close>

record Time =
  season :: string
  year :: string
  phase :: string
  time :: datetime

text \<open>
  \<open>Time.__init__\<close>: the stripped line is split at every single space and unpacked
  into exactly nine names (ValueError otherwise); the eighth piece is parsed as a
  time. \<open>season\<close>, \<open>year\<close> and \<open>phase\<close> stay the strings of the line.
\<close>

definition Time_init :: "string \<Rightarrow> error + Time" where
  "Time_init line =
     (case str_split (str_strip line) '' '' of
        [season', year', phase', _, month', day', year'', time', tz'] \<Rightarrow>
          (case strptime time' of
             Inl e \<Rightarrow> Inl e
           | Inr t \<Rightarrow> Inr \<lparr>Time.season = season', year = year', phase = phase', time = t\<rparr>)
      | _ \<Rightarrow> Inl ValueError)"

text \<open>
  A \<open>TimeList\<close> object has the one attribute \<open>times\<close> and is modelled as that list.
  \<open>TimeList.__init__\<close> builds one \<open>Time\<close> per line of the file, in file order, leaving
  out the lines that are blank or are one of two literals once stripped; the first
  line that \<open>Time\<close> rejects ends the construction with its exception.
\<close>

type_synonym TimeList = "Time list"

fun TimeList_init :: "string list \<Rightarrow> error + TimeList" where
  "TimeList_init [] = Inr []"
| "TimeList_init (line # f) =
     (if str_strip line \<noteq> [] \<and> str_strip line \<noteq> ''Winter 1900''
         \<and> str_strip line \<noteq> ''Fall 1905 Retreat''
      then (case Time_init line of
              Inl e \<Rightarrow> Inl e
            | Inr t \<Rightarrow> (case TimeList_init f of Inl e \<Rightarrow> Inl e | Inr ts \<Rightarrow> Inr (t # ts)))
      else TimeList_init f)"

text \<open>
  \<open>TimeList.after_deadline\<close>: the loop returns at the first record whose season and
  year equal the arguments and whose phase is Orders. When the loop ends without such
  a record the function returns \<open>None\<close>. The result is \<open>Inr (Some b)\<close> for a returned
  boolean and \<open>Inr None\<close> for \<open>None\<close>; the function has no raise.
\<close>

fun after_deadline :: "TimeList \<Rightarrow> string \<Rightarrow> pyval \<Rightarrow> datetime \<Rightarrow> string \<Rightarrow> error + bool option" where
  "after_deadline [] season' year' time' msg = Inr None"
| "after_deadline (t # ts) season' year' time' msg =
     (if Time.season t = season' \<and> PStr (Time.year t) = year' \<and> phase t = ''Orders'' then
        (if time' < Time.time t then Inr (Some False)
         else if time' = Time.time t then
           (if length msg < 50 then Inr (Some True) else Inr (Some False))
         else Inr (Some True))
      else after_deadline ts season' year' time' msg)"

subsection \<open>Messages: class Message\<close>

text \<open>\<open>os.linesep\<close> on a POSIX system.\<close>

definition os_linesep :: string where
  "os_linesep = [CHR 0x0A]"

record Message =
  from' :: unicode
  year :: int
  season :: string
  to :: unicode
  message :: string
  time :: datetime

text \<open>
  \<open>next((line for line in txt if line.lower().startswith(p)))\<close>: the first such line,
  StopIteration when there is none (\<open>next\<close> is given no default).
\<close>

definition next_startswith :: "string list \<Rightarrow> string \<Rightarrow> error + string" where
  "next_startswith txt p =
     (case find (\<lambda>line. str_startswith (str_lower line) p) txt of
        None \<Rightarrow> Inl StopIteration
      | Some line \<Rightarrow> Inr line)"

text \<open>
  \<open>Message.__init__\<close> up to the deadline query (the assignments to \<open>self\<close> in source
  order): the object holds the season and year as the \<open>Date:\<close> line states them.
\<close>

definition Message_fields :: "string \<Rightarrow> error + Message" where
  "Message_fields block =
     (let txt = str_split block os_linesep in
      and_then (next_startswith txt ''from:'') (\<lambda>from_line.
      and_then (next_startswith txt ''date:'') (\<lambda>date_line.
      and_then (next_startswith txt ''cc:'') (\<lambda>to_line.
      and_then (getitem (map fst (filter (\<lambda>(i, line). str_startswith (str_lower line) ''cc:'')
                                     (enumerate 0 txt))) 0) (\<lambda>to_line_index.
      let msg_body = str_join os_linesep (drop (to_line_index + 1) txt) in
      and_then (getitem (str_split from_line ''From:'') 1) (\<lambda>from_value.
      and_then (getitem (str_split date_line ''Date:'') 1) (\<lambda>date_value.
      let date = str_strip date_value in
      and_then (getitem (str_split date '' '') (- 1)) (\<lambda>year_token.
      and_then (py_int year_token) (\<lambda>year'.
      and_then (getitem (str_split date '' '') (- 2)) (\<lambda>season'.
      and_then (getitem (str_split to_line ''CC:'') 1) (\<lambda>to_value.
      and_then (getitem (str_split date_line '' '') 4) (\<lambda>time_token.
      and_then (strptime time_token) (\<lambda>time'.
        Inr \<lparr>from' = str_title (str_lower (str_strip from_value)),
             year = year',
             season = season',
             to = str_title (str_lower (str_strip to_value)),
             message = str_strip msg_body,
             time = time'\<rparr>)))))))))))))"

text \<open>
  The statement under "Change season if after deadline": \<open>r\<close> is what \<open>after_deadline\<close>
  returned; \<open>None\<close> and \<open>False\<close> are false as a condition. The year is assigned
  first, from the season as it still is.
\<close>

definition change_season :: "bool option \<Rightarrow> Message \<Rightarrow> Message" where
  "change_season r self =
     (if r = Some True then
        self\<lparr>Message.year := (if Message.season self = ''Fall''
                                then Message.year self + 1 else Message.year self),
             Message.season := (if Message.season self = ''Spring''
                                  then ''Fall'' else ''Spring'')\<rparr>
      else self)"

text \<open>
  \<open>Message.__init__\<close>: \<open>self.year\<close> is the \<open>int\<close> that \<open>int(...)\<close> returned, and it is
  that integer which is passed to \<open>after_deadline\<close>.
\<close>

definition Message_init :: "string \<Rightarrow> TimeList \<Rightarrow> error + Message" where
  "Message_init block timelist =
     (case Message_fields block of
        Inl e \<Rightarrow> Inl e
      | Inr self \<Rightarrow>
          (case after_deadline timelist (Message.season self) (PInt (Message.year self))
                  (Message.time self) (message self) of
             Inl e \<Rightarrow> Inl e
           | Inr r \<Rightarrow> Inr (change_season r self)))"

subsection \<open>Notions used to state the properties\<close>

text \<open>\<open>sub in s\<close>: the string \<open>sub\<close> occurs somewhere in \<open>s\<close>.\<close>

fun str_contains :: "string \<Rightarrow> string \<Rightarrow> bool" where
  "str_contains [] sub = (sub = [])"
| "str_contains (c # cs) sub = (str_startswith (c # cs) sub \<or> str_contains cs sub)"

text \<open>
  The specification's reading of a schedule line, "whitespace-separated tokens": the
  maximal runs of characters that are not whitespace (Python's \<open>s.split()\<close> without a
  separator). The loader does not call this; it is here to compare the specification's
  wording with \<open>Time_init\<close>. \<open>cur\<close> is the token being read, reversed.
\<close>

fun tokens_from :: "string \<Rightarrow> string \<Rightarrow> string list" where
  "tokens_from cur [] = (if cur = [] then [] else [rev cur])"
| "tokens_from cur (c # cs) =
     (if isspace c then (if cur = [] then tokens_from [] cs else rev cur # tokens_from [] cs)
      else tokens_from (c # cur) cs)"

definition whitespace_separated_tokens :: "string \<Rightarrow> string list" where
  "whitespace_separated_tokens s = tokens_from [] s"

section \<open>Properties\<close>

subsection \<open>The loop of the deadline query\<close>

text \<open>The loop of \<open>after_deadline\<close> passes over the records that do not match.\<close>

lemma after_deadline_skip:
  "\<forall>u \<in> set pre. \<not> (Time.season u = s \<and> PStr (Time.year u) = y \<and> phase u = ''Orders'') \<Longrightarrow>
   after_deadline (pre @ rest) s y tm msg = after_deadline rest s y tm msg"
  by (induction pre) auto

text \<open>No record's year, a string, equals an integer.\<close>

lemma after_deadline_int_year:
  "after_deadline timelist s (PInt y) tm msg = Inr None"
  by (induction timelist) auto

subsection \<open>Exceptions of the steps, and splitting\<close>

text \<open>The exceptions each step can raise.\<close>

lemma getitem_error: "getitem xs i = Inl e \<Longrightarrow> e = IndexError"
  by (simp add: getitem_def Let_def split: if_splits)

lemma hour_minute_error: "hour_minute h s = Inl e \<Longrightarrow> e = ValueError"
  by (simp add: hour_minute_def split: option.splits)

lemma strptime_error: "strptime s = Inl e \<Longrightarrow> e = ValueError"
  by (auto simp add: strptime_def split: list.splits if_splits dest: hour_minute_error)

lemma py_int_error: "py_int s = Inl e \<Longrightarrow> e = ValueError"
  by (simp add: py_int_def split: list.splits if_splits option.splits)

text \<open>A string without the separator is split into itself alone.\<close>

lemma split_from_no_sep:
  "\<not> str_contains s sep \<Longrightarrow> split_from sep cur s = [rev cur @ s]"
  by (induction s arbitrary: cur) auto

lemma str_split_no_sep: "\<not> str_contains s sep \<Longrightarrow> str_split s sep = [s]"
  by (simp add: str_split_def split_from_no_sep)

lemma getitem_1_no_sep: "\<not> str_contains s sep \<Longrightarrow> getitem (str_split s sep) 1 = Inl IndexError"
  by (simp add: str_split_no_sep getitem_def)

text \<open>Stripping leaves nothing exactly of the strings that are whitespace throughout.\<close>

lemma str_strip_empty_iff: "str_strip s = [] \<longleftrightarrow> (\<forall>c \<in> set s. isspace c)"
proof
  assume "str_strip s = []"
  then have "\<forall>c \<in> set (dropWhile isspace s). isspace c"
    by (simp add: str_strip_def dropWhile_eq_Nil_conv)
  then have "dropWhile isspace s = []"
    using hd_dropWhile [of isspace s] by (cases "dropWhile isspace s") auto
  then show "\<forall>c \<in> set s. isspace c"
    by (simp add: dropWhile_eq_Nil_conv)
next
  assume "\<forall>c \<in> set s. isspace c"
  then show "str_strip s = []"
    by (auto simp add: str_strip_def dropWhile_eq_Nil_conv dest: set_dropWhileD)
qed

text \<open>When \<open>Time\<close> rejects a line.\<close>

lemma Time_init_fails_iff:
  "(\<exists>e. Time_init line = Inl e) \<longleftrightarrow>
     (length (str_split (str_strip line) '' '') \<noteq> 9 \<or>
      (\<exists>e. strptime (str_split (str_strip line) '' '' ! 7) = Inl e))"
  by (auto simp add: Time_init_def split: list.splits sum.splits)

lemma Time_init_error: "Time_init line = Inl e \<Longrightarrow> e = ValueError"
  by (auto simp add: Time_init_def split: list.splits sum.splits dest: strptime_error)

subsection \<open>The year is compared as a string with an integer\<close>

text \<open>
  Claim C1. Whatever the deadline table holds, \<open>after_deadline\<close> called with an integer
  year (as \<open>Message.__init__\<close> calls it) finds no matching record and returns \<open>None\<close>,
  never \<open>True\<close>; so the assignment under "Change season" is never reached and the
  message keeps the season and year that its \<open>Date:\<close> line states. A block that fails
  to parse fails the same way with any table.
\<close>

theorem resolved_equals_nominal:
  "after_deadline timelist s (PInt y) tm msg = Inr None \<and>
   Message_init block timelist = Message_fields block"
proof
  show "after_deadline timelist s (PInt y) tm msg = Inr None"
    by (rule after_deadline_int_year)
  show "Message_init block timelist = Message_fields block"
    by (cases "Message_fields block")
       (simp_all add: Message_init_def after_deadline_int_year change_season_def)
qed

theorem resolved_equals_nominal_witness:
  "after_deadline
     [\<lparr>Time.season = ''Fall'', year = ''1904'', phase = ''Orders'', time = (16, 45)\<rparr>]
     ''Fall'' (PInt 1904) (16, 53) (replicate 80 (CHR ''x'')) = Inr None \<and>
   Message_init
     (str_join os_linesep [''From: alice'', ''Date: Mon Oct 7 16:53 1904 Fall 1904'',
                           ''CC: bob'', replicate 80 (CHR ''x'')])
     [\<lparr>Time.season = ''Fall'', year = ''1904'', phase = ''Orders'', time = (16, 45)\<rparr>]
   = Message_fields
     (str_join os_linesep [''From: alice'', ''Date: Mon Oct 7 16:53 1904 Fall 1904'',
                           ''CC: bob'', replicate 80 (CHR ''x'')])"
  by (rule resolved_equals_nominal)

subsection \<open>The end-to-end example\<close>

text \<open>
  The docstring of \<open>after_deadline\<close> gives the example "Fall 1904 16:53 -> True", the
  Orders phase of Fall 1904 having ended at 16:45. The query answers so when the year
  is given as the string that the table holds.
\<close>

lemma docstring_example:
  "after_deadline
     [\<lparr>Time.season = ''Fall'', year = ''1904'', phase = ''Orders'', time = (16, 45)\<rparr>]
     ''Fall'' (PStr ''1904'') (16, 53) msg = Inr (Some True)"
  by simp

text \<open>
  Claim C2. The example expects the message to be resolved to Spring 1905. The
  schedule line as the example writes it, with the time before the year, is rejected
  by the loader (ValueError: the eighth piece, \<open>1904\<close>, is not a time). With the same
  record in the order the loader reads, the table holds the Orders deadline of Fall
  1904 at 16:45, and the block with \<open>Date: Mon Oct 7 16:53 1904 Fall 1904\<close> and a body of
  80 characters is constructed with season Fall and year 1904: the message is not moved
  to Spring 1905, because the query is made with the year as an integer.
\<close>

theorem end_to_end_example:
  "TimeList_init [''Fall 1904 Orders Mon Oct 7 16:45 1904 UTC''] = Inl ValueError \<and>
   TimeList_init [''Fall 1904 Orders Mon Oct 7 1904 16:45 UTC'']
     = Inr [\<lparr>Time.season = ''Fall'', year = ''1904'', phase = ''Orders'', time = (16, 45)\<rparr>] \<and>
   Message_init
     (str_join os_linesep [''From: alice'', ''Date: Mon Oct 7 16:53 1904 Fall 1904'',
                           ''CC: bob'', replicate 80 (CHR ''x'')])
     [\<lparr>Time.season = ''Fall'', year = ''1904'', phase = ''Orders'', time = (16, 45)\<rparr>]
     = Inr \<lparr>from' = map of_char ''Alice'', year = 1904, season = ''Fall'',
            to = map of_char ''Bob'', message = replicate 80 (CHR ''x''), time = (16, 53)\<rparr>"
  by code_simp

subsection \<open>The deadline query\<close>

text \<open>
  Claim C3. Let the table hold an Orders record for the queried season and year, and
  let \<open>t\<close> be the first such record in file order (the one the loop returns at).
  A message sent at exactly the deadline time of \<open>t\<close> is after the deadline when its
  body has fewer than 50 characters, and not after it when the body has 50 or more.
\<close>

theorem tie_break_at_deadline:
  assumes "timelist = pre @ t # post"
    and "\<forall>u \<in> set pre. \<not> (Time.season u = s \<and> PStr (Time.year u) = y \<and> phase u = ''Orders'')"
    and "Time.season t = s \<and> PStr (Time.year t) = y \<and> phase t = ''Orders''"
    and "tm = Time.time t"
  shows "after_deadline timelist s y tm msg = Inr (Some (length msg < 50))"
  using assms by (simp add: after_deadline_skip)

theorem tie_break_at_deadline_witness:
  "after_deadline
     [\<lparr>Time.season = ''Spring'', year = ''1904'', phase = ''Orders'', time = (12, 0)\<rparr>,
      \<lparr>Time.season = ''Fall'', year = ''1904'', phase = ''Orders'', time = (16, 45)\<rparr>]
     ''Fall'' (PStr ''1904'') (16, 45) (replicate 49 (CHR ''x'')) = Inr (Some True) \<and>
   after_deadline
     [\<lparr>Time.season = ''Spring'', year = ''1904'', phase = ''Orders'', time = (12, 0)\<rparr>,
      \<lparr>Time.season = ''Fall'', year = ''1904'', phase = ''Orders'', time = (16, 45)\<rparr>]
     ''Fall'' (PStr ''1904'') (16, 45) (replicate 50 (CHR ''x'')) = Inr (Some False)"
proof -
  let ?spring = "\<lparr>Time.season = ''Spring'', year = ''1904'', phase = ''Orders'', time = (12, 0)\<rparr>"
  let ?fall = "\<lparr>Time.season = ''Fall'', year = ''1904'', phase = ''Orders'', time = (16, 45)\<rparr>"
  have "after_deadline [?spring, ?fall] ''Fall'' (PStr ''1904'') (16, 45) msg
          = Inr (Some (length msg < 50))" for msg
    by (rule tie_break_at_deadline [where pre = "[?spring]" and t = ?fall and post = "[]"])
       simp_all
  from this [of "replicate 49 (CHR ''x'')"] this [of "replicate 50 (CHR ''x'')"]
  show ?thesis by simp
qed

text \<open>
  Claim C4. With \<open>t\<close> the first Orders record for the queried season and year, a message
  sent strictly before the deadline time of \<open>t\<close> is not after the deadline, and a
  message sent strictly after it is, whatever the body.
\<close>

theorem before_and_after_deadline:
  assumes "timelist = pre @ t # post"
    and "\<forall>u \<in> set pre. \<not> (Time.season u = s \<and> PStr (Time.year u) = y \<and> phase u = ''Orders'')"
    and "Time.season t = s \<and> PStr (Time.year t) = y \<and> phase t = ''Orders''"
  shows "(tm < Time.time t \<longrightarrow> after_deadline timelist s y tm msg = Inr (Some False)) \<and>
         (Time.time t < tm \<longrightarrow> after_deadline timelist s y tm msg = Inr (Some True))"
  using assms by (auto simp add: after_deadline_skip)

theorem before_and_after_deadline_witness:
  "after_deadline
     [\<lparr>Time.season = ''Spring'', year = ''1904'', phase = ''Orders'', time = (12, 0)\<rparr>,
      \<lparr>Time.season = ''Fall'', year = ''1904'', phase = ''Orders'', time = (16, 45)\<rparr>]
     ''Fall'' (PStr ''1904'') (16, 44) ''short'' = Inr (Some False) \<and>
   after_deadline
     [\<lparr>Time.season = ''Spring'', year = ''1904'', phase = ''Orders'', time = (12, 0)\<rparr>,
      \<lparr>Time.season = ''Fall'', year = ''1904'', phase = ''Orders'', time = (16, 45)\<rparr>]
     ''Fall'' (PStr ''1904'') (16, 46) (replicate 80 (CHR ''x'')) = Inr (Some True)"
proof -
  let ?spring = "\<lparr>Time.season = ''Spring'', year = ''1904'', phase = ''Orders'', time = (12, 0)\<rparr>"
  let ?fall = "\<lparr>Time.season = ''Fall'', year = ''1904'', phase = ''Orders'', time = (16, 45)\<rparr>"
  have "(tm < Time.time ?fall \<longrightarrow>
           after_deadline [?spring, ?fall] ''Fall'' (PStr ''1904'') tm msg = Inr (Some False)) \<and>
        (Time.time ?fall < tm \<longrightarrow>
           after_deadline [?spring, ?fall] ''Fall'' (PStr ''1904'') tm msg = Inr (Some True))"
    for tm msg
    by (rule before_and_after_deadline [where pre = "[?spring]" and t = ?fall and post = "[]"])
       simp_all
  from this [of "(16, 44)" "''short''"] this [of "(16, 46)" "replicate 80 (CHR ''x'')"]
  show ?thesis by simp
qed

subsection \<open>The season change\<close>

text \<open>
  Claim C5. When \<open>after_deadline\<close> reports true, the message moves on by exactly one
  phase: a Spring message becomes a Fall message of the same year, a Fall message
  becomes a Spring message of the following year. When it reports false (or returns
  \<open>None\<close>) the message is unchanged. Every parsed message is the result of this step
  on the fields of its headers and the answer of \<open>after_deadline\<close> for them.
\<close>

theorem change_season_one_phase:
  "(Message.season self = ''Spring'' \<longrightarrow>
      Message.season (change_season (Some True) self) = ''Fall'' \<and>
      Message.year (change_season (Some True) self) = Message.year self) \<and>
   (Message.season self = ''Fall'' \<longrightarrow>
      Message.season (change_season (Some True) self) = ''Spring'' \<and>
      Message.year (change_season (Some True) self) = Message.year self + 1) \<and>
   change_season (Some False) self = self \<and>
   change_season None self = self \<and>
   (Message_init block timelist = Inr m \<longrightarrow>
      (\<exists>fields r. Message_fields block = Inr fields \<and>
         after_deadline timelist (Message.season fields) (PInt (Message.year fields))
           (Message.time fields) (message fields) = Inr r \<and>
         m = change_season r fields))"
  by (auto simp add: change_season_def Message_init_def split: sum.splits)

theorem change_season_one_phase_witness:
  "change_season (Some True)
     \<lparr>from' = map of_char ''Alice'', year = 1901, season = ''Spring'', to = map of_char ''Bob'',
      message = ''hello'', time = (16, 53)\<rparr>
   = \<lparr>from' = map of_char ''Alice'', year = 1901, season = ''Fall'', to = map of_char ''Bob'',
      message = ''hello'', time = (16, 53)\<rparr> \<and>
   change_season (Some True)
     \<lparr>from' = map of_char ''Alice'', year = 1901, season = ''Fall'', to = map of_char ''Bob'',
      message = ''hello'', time = (16, 53)\<rparr>
   = \<lparr>from' = map of_char ''Alice'', year = 1902, season = ''Spring'', to = map of_char ''Bob'',
      message = ''hello'', time = (16, 53)\<rparr> \<and>
   change_season (Some False)
     \<lparr>from' = map of_char ''Alice'', year = 1901, season = ''Fall'', to = map of_char ''Bob'',
      message = ''hello'', time = (16, 53)\<rparr>
   = \<lparr>from' = map of_char ''Alice'', year = 1901, season = ''Fall'', to = map of_char ''Bob'',
      message = ''hello'', time = (16, 53)\<rparr>"
proof -
  let ?spring = "\<lparr>from' = map of_char ''Alice'', year = 1901, season = ''Spring'', to = map of_char ''Bob'',
                   message = ''hello'', time = (16, 53)\<rparr>"
  let ?fall = "\<lparr>from' = map of_char ''Alice'', year = 1901, season = ''Fall'', to = map of_char ''Bob'',
                 message = ''hello'', time = (16, 53)\<rparr>"
  have spring: "Message.season (change_season (Some True) ?spring) = ''Fall'' \<and>
                Message.year (change_season (Some True) ?spring) = 1901"
    using change_season_one_phase [of ?spring] by simp
  have fall: "Message.season (change_season (Some True) ?fall) = ''Spring'' \<and>
              Message.year (change_season (Some True) ?fall) = 1902"
    using change_season_one_phase [of ?fall] by simp
  have unchanged: "change_season (Some False) ?fall = ?fall"
    using change_season_one_phase [of ?fall] by blast
  have rest: "from' (change_season r x) = from' x \<and> to (change_season r x) = to x \<and>
              message (change_season r x) = message x \<and>
              Message.time (change_season r x) = Message.time x" for r x
    by (simp add: change_season_def)
  have "change_season (Some True) ?spring = ?spring\<lparr>Message.year := 1901, Message.season := ''Fall''\<rparr>"
    using spring rest [of "Some True" ?spring] by (intro Message.equality) simp_all
  moreover have "change_season (Some True) ?fall = ?fall\<lparr>Message.year := 1902, Message.season := ''Spring''\<rparr>"
    using fall rest [of "Some True" ?fall] by (intro Message.equality) simp_all
  ultimately show ?thesis using unchanged by simp
qed

subsection \<open>A query without a matching record\<close>

text \<open>
  The claim C6 says that a query which no Orders record matches raises an error. The
  function has no raise: on a table whose only record is for Fall 1904, the query for
  Spring 1901 returns \<open>None\<close>.
\<close>

theorem no_matching_record_returns_None:
  "after_deadline
     [\<lparr>Time.season = ''Fall'', year = ''1904'', phase = ''Orders'', time = (16, 45)\<rparr>]
     ''Spring'' (PStr ''1901'') (12, 0) ''hello'' = Inr None"
  by simp

text \<open>
  Claim C6, amended. When no record of the table has the queried season and year with
  phase Orders, \<open>after_deadline\<close> raises nothing and returns \<open>None\<close>.
\<close>

theorem no_matching_record:
  assumes "\<forall>u \<in> set timelist.
             \<not> (Time.season u = s \<and> PStr (Time.year u) = y \<and> phase u = ''Orders'')"
  shows "after_deadline timelist s y tm msg = Inr None"
  using assms by (induction timelist) auto

theorem no_matching_record_witness:
  "after_deadline
     [\<lparr>Time.season = ''Fall'', year = ''1904'', phase = ''Retreat'', time = (18, 0)\<rparr>,
      \<lparr>Time.season = ''Fall'', year = ''1905'', phase = ''Orders'', time = (16, 45)\<rparr>]
     ''Fall'' (PStr ''1904'') (16, 53) ''hello'' = Inr None"
  by (rule no_matching_record) simp

subsection \<open>Loading the schedule\<close>

text \<open>
  Claim C7. A line that is empty or only whitespace (every character that \<open>strip()\<close>
  removes, the no-break space and NEL among them), or that is \<open>Winter 1900\<close> or
  \<open>Fall 1905 Retreat\<close> once its surrounding whitespace (the line terminator) is
  stripped, is skipped: the file loads to the same records, or fails with the same
  exception, as the file without that line. So such a line yields no record and no
  error.
\<close>

theorem filtered_lines_skipped:
  assumes "(\<forall>c \<in> set l. isspace c) \<or> str_strip l = ''Winter 1900''
             \<or> str_strip l = ''Fall 1905 Retreat''"
  shows "TimeList_init (xs @ l # ys) = TimeList_init (xs @ ys)"
proof -
  from assms have "str_strip l = [] \<or> str_strip l = ''Winter 1900''
      \<or> str_strip l = ''Fall 1905 Retreat''"
    by (simp add: str_strip_empty_iff)
  then show ?thesis
    by (induction xs) (auto split: sum.splits)
qed

theorem filtered_lines_skipped_witness:
  "TimeList_init [''Winter 1900'' @ [CHR 0x0A], ''Fall 1905 Retreat'' @ [CHR 0x0A],
                  [CHR 0x0A], [CHR '' '', CHR 0x09, CHR 0xA0, CHR 0x85, CHR 0x0A], []] = Inr []"
proof -
  have w: "str_strip (''Winter 1900'' @ [CHR 0x0A]) = ''Winter 1900''"
    and r: "str_strip (''Fall 1905 Retreat'' @ [CHR 0x0A]) = ''Fall 1905 Retreat''"
    by (simp_all add: str_strip_def isspace_def)
  have n: "\<forall>c \<in> set [CHR 0x0A]. isspace c"
    and b: "\<forall>c \<in> set [CHR '' '', CHR 0x09, CHR 0xA0, CHR 0x85, CHR 0x0A]. isspace c"
    and e: "\<forall>c \<in> set []. isspace c"
    by (simp_all add: isspace_def)
  have "TimeList_init [''Winter 1900'' @ [CHR 0x0A], ''Fall 1905 Retreat'' @ [CHR 0x0A],
                       [CHR 0x0A], [CHR '' '', CHR 0x09, CHR 0xA0, CHR 0x85, CHR 0x0A], []]
          = TimeList_init [''Fall 1905 Retreat'' @ [CHR 0x0A], [CHR 0x0A],
                           [CHR '' '', CHR 0x09, CHR 0xA0, CHR 0x85, CHR 0x0A], []]"
    using filtered_lines_skipped [of "''Winter 1900'' @ [CHR 0x0A]" "[]"] w by simp
  also have "\<dots> = TimeList_init [[CHR 0x0A], [CHR '' '', CHR 0x09, CHR 0xA0, CHR 0x85, CHR 0x0A], []]"
    using filtered_lines_skipped [of "''Fall 1905 Retreat'' @ [CHR 0x0A]" "[]"] r by simp
  also have "\<dots> = TimeList_init [[CHR '' '', CHR 0x09, CHR 0xA0, CHR 0x85, CHR 0x0A], []]"
    using filtered_lines_skipped [of "[CHR 0x0A]" "[]"] n by simp
  also have "\<dots> = TimeList_init [[]]"
    using filtered_lines_skipped [of "[CHR '' '', CHR 0x09, CHR 0xA0, CHR 0x85, CHR 0x0A]" "[]"] b
    by simp
  also have "\<dots> = TimeList_init []"
    using filtered_lines_skipped [of "[]" "[]" "[]"] e by simp
  finally show ?thesis by simp
qed

subsection \<open>Message blocks without a header line\<close>

text \<open>
  Claim C8. When the block has no line that starts with \<open>From:\<close>, or none that starts
  with \<open>Date:\<close>, or none that starts with \<open>CC:\<close> (each looked for without regard to
  letter case, as the parser looks for it), constructing the message raises
  (StopIteration, from \<open>next\<close>) and no message results.
\<close>

theorem missing_header_raises:
  assumes "\<not> (\<exists>line \<in> set (str_split block os_linesep). str_startswith (str_lower line) ''from:'')
         \<or> \<not> (\<exists>line \<in> set (str_split block os_linesep). str_startswith (str_lower line) ''date:'')
         \<or> \<not> (\<exists>line \<in> set (str_split block os_linesep). str_startswith (str_lower line) ''cc:'')"
  shows "Message_init block timelist = Inl StopIteration"
proof -
  let ?txt = "str_split block os_linesep"
  have n: "next_startswith ?txt p = Inl StopIteration"
    if "\<not> (\<exists>line \<in> set ?txt. str_startswith (str_lower line) p)" for p
  proof -
    have "find (\<lambda>line. str_startswith (str_lower line) p) ?txt = None"
      using that by (simp add: find_None_iff)
    then show ?thesis by (simp add: next_startswith_def)
  qed
  have "Message_fields block = Inl StopIteration"
    using assms n [of "''from:''"] n [of "''date:''"] n [of "''cc:''"]
    by (auto simp add: Message_fields_def and_then_def Let_def split: sum.splits
         simp add: next_startswith_def split: option.splits)
  then show ?thesis by (simp add: Message_init_def)
qed

theorem missing_header_raises_witness:
  "Message_init
     (str_join os_linesep [''From: alice'', ''Date: Mon Oct 7 16:53 1904 Fall 1904'', ''hello''])
     [] = Inl StopIteration"
proof (rule missing_header_raises)
  have "str_split (str_join os_linesep
          [''From: alice'', ''Date: Mon Oct 7 16:53 1904 Fall 1904'', ''hello'']) os_linesep
        = [''From: alice'', ''Date: Mon Oct 7 16:53 1904 Fall 1904'', ''hello'']"
    by (simp add: str_split_def os_linesep_def str_startswith_def)
  then show "\<not> (\<exists>line \<in> set (str_split (str_join os_linesep
                 [''From: alice'', ''Date: Mon Oct 7 16:53 1904 Fall 1904'', ''hello''])
                 os_linesep). str_startswith (str_lower line) ''from:'')
         \<or> \<not> (\<exists>line \<in> set (str_split (str_join os_linesep
                 [''From: alice'', ''Date: Mon Oct 7 16:53 1904 Fall 1904'', ''hello''])
                 os_linesep). str_startswith (str_lower line) ''date:'')
         \<or> \<not> (\<exists>line \<in> set (str_split (str_join os_linesep
                 [''From: alice'', ''Date: Mon Oct 7 16:53 1904 Fall 1904'', ''hello''])
                 os_linesep). str_startswith (str_lower line) ''cc:'')"
    by code_simp
qed

subsection \<open>Schedule lines that do not load\<close>

text \<open>
  The claim C9 says that a line which is not filtered fails to load exactly when it
  does not consist of nine whitespace-separated tokens. The line below, with the day
  of the month padded by a second space, consists of exactly the nine tokens of a
  record, and loading it raises ValueError: the loader splits at every single space
  and gets ten pieces.
\<close>

theorem nine_tokens_rejected:
  "whitespace_separated_tokens ''Fall 1904 Orders Mon Oct  7 1904 16:45 UTC''
     = [''Fall'', ''1904'', ''Orders'', ''Mon'', ''Oct'', ''7'', ''1904'', ''16:45'', ''UTC''] \<and>
   TimeList_init [''Fall 1904 Orders Mon Oct  7 1904 16:45 UTC''] = Inl ValueError"
  by code_simp

text \<open>
  Claim C9, amended. Loading raises, and then ValueError, exactly when some line that
  is not filtered, once stripped, does not split at its single spaces into exactly
  nine pieces, or has an eighth piece that \<open>strptime\<close> does not read as a time
  \<open>%H:%M\<close>.
\<close>

theorem TimeList_init_fails_iff:
  "((\<exists>e. TimeList_init f = Inl e) \<longleftrightarrow>
      (\<exists>line \<in> set f.
         (str_strip line \<noteq> [] \<and> str_strip line \<noteq> ''Winter 1900''
            \<and> str_strip line \<noteq> ''Fall 1905 Retreat'') \<and>
         (length (str_split (str_strip line) '' '') \<noteq> 9 \<or>
          (\<exists>e. strptime (str_split (str_strip line) '' '' ! 7) = Inl e)))) \<and>
   (TimeList_init f = Inl e' \<longrightarrow> e' = ValueError)"
proof (induction f)
  case Nil
  show ?case by simp
next
  case (Cons line f)
  let ?kept = "str_strip line \<noteq> [] \<and> str_strip line \<noteq> ''Winter 1900''
                 \<and> str_strip line \<noteq> ''Fall 1905 Retreat''"
  let ?bad = "length (str_split (str_strip line) '' '') \<noteq> 9 \<or>
                (\<exists>e. strptime (str_split (str_strip line) '' '' ! 7) = Inl e)"
  show ?case
  proof (cases ?kept)
    case False
    then have "TimeList_init (line # f) = TimeList_init f" by auto
    with Cons False show ?thesis by auto
  next
    case kept: True
    show ?thesis
    proof (cases "Time_init line")
      case (Inl e)
      then have ?bad using Time_init_fails_iff [of line] by blast
      moreover have "e = ValueError" using Inl by (rule Time_init_error)
      moreover have "TimeList_init (line # f) = Inl e" using kept Inl by simp
      ultimately show ?thesis using kept by auto
    next
      case (Inr t)
      then have "\<not> ?bad" using Time_init_fails_iff [of line] by auto
      moreover have "TimeList_init (line # f)
          = (case TimeList_init f of Inl e \<Rightarrow> Inl e | Inr ts \<Rightarrow> Inr (t # ts))"
        using kept Inr by simp
      ultimately show ?thesis using Cons by (auto split: sum.splits)
    qed
  qed
qed

theorem TimeList_init_fails_iff_witness:
  "TimeList_init [''Fall 1904 Orders Mon Oct 7 1904 16:45 UTC'',
                  ''Spring 1905 Orders Tue Mar 4 1905 4pm UTC''] = Inl ValueError"
proof -
  let ?f = "[''Fall 1904 Orders Mon Oct 7 1904 16:45 UTC'',
             ''Spring 1905 Orders Tue Mar 4 1905 4pm UTC'']"
  let ?line = "''Spring 1905 Orders Tue Mar 4 1905 4pm UTC''"
  have toks: "str_split (str_strip ?line) '' ''
      = [''Spring'', ''1905'', ''Orders'', ''Tue'', ''Mar'', ''4'', ''1905'', ''4pm'', ''UTC'']"
    by code_simp
  have kept: "str_strip ?line \<noteq> [] \<and> str_strip ?line \<noteq> ''Winter 1900''
                \<and> str_strip ?line \<noteq> ''Fall 1905 Retreat''"
    by code_simp
  have "strptime ''4pm'' = Inl ValueError" by code_simp
  then have bad: "\<exists>e. strptime (str_split (str_strip ?line) '' '' ! 7) = Inl e"
    by (simp add: toks)
  have "\<exists>line \<in> set ?f.
         (str_strip line \<noteq> [] \<and> str_strip line \<noteq> ''Winter 1900''
            \<and> str_strip line \<noteq> ''Fall 1905 Retreat'') \<and>
         (length (str_split (str_strip line) '' '') \<noteq> 9 \<or>
          (\<exists>e. strptime (str_split (str_strip line) '' '' ! 7) = Inl e))"
    using kept bad by simp
  then obtain e where e: "TimeList_init ?f = Inl e"
    using TimeList_init_fails_iff [of ?f] by blast
  then have "e = ValueError" using TimeList_init_fails_iff [of ?f e] by blast
  with e show ?thesis by simp
qed

subsection \<open>Header lines in another letter case\<close>

text \<open>
  The claim C10 says that a block whose header prefix differs in letter case from the
  literal the value is split at never yields a message. The first line below starts
  with \<open>FROM:\<close>, is found as the sender line, and holds the literal \<open>From:\<close> further on:
  the split has a second piece and the message is built.
\<close>

theorem other_case_prefix_parsed:
  "Message_init
     (str_join os_linesep [''FROM: From: bob'', ''Date: Mon Oct 7 16:53 1904 Fall 1904'',
                           ''CC: alice'', ''hello''])
     []
   = Inr \<lparr>from' = map of_char ''Bob'', year = 1904, season = ''Fall'', to = map of_char ''Alice'',
          message = ''hello'', time = (16, 53)\<rparr>"
  by code_simp

text \<open>
  Claim C10, amended. Let the three header lines be found (without regard to letter
  case), and let one of them not contain the literal its value is split at (\<open>From:\<close>,
  \<open>Date:\<close>, \<open>CC:\<close>). Then no message is built: the construction raises. When the
  sender line or the date line is such a line, the exception is the IndexError of the
  access to the second piece of the split. When only the recipient line is, it is
  that IndexError unless reading the year and season off the date line has raised
  before (ValueError from \<open>int\<close>, or IndexError).
\<close>

theorem other_case_header_raises:
  assumes "find (\<lambda>line. str_startswith (str_lower line) ''from:'')
             (str_split block os_linesep) = Some from_line"
    and "find (\<lambda>line. str_startswith (str_lower line) ''date:'')
             (str_split block os_linesep) = Some date_line"
    and "find (\<lambda>line. str_startswith (str_lower line) ''cc:'')
             (str_split block os_linesep) = Some to_line"
    and "\<not> str_contains from_line ''From:'' \<or> \<not> str_contains date_line ''Date:''
           \<or> \<not> str_contains to_line ''CC:''"
  shows "(Message_init block timelist = Inl IndexError \<or>
          Message_init block timelist = Inl ValueError) \<and>
         (\<not> str_contains from_line ''From:'' \<or> \<not> str_contains date_line ''Date:'' \<longrightarrow>
          Message_init block timelist = Inl IndexError)"
proof -
  have init: "Message_init block timelist = Inl e" if "Message_fields block = Inl e" for e
    using that by (simp add: Message_init_def)
  have from_case: "Message_fields block = Inl IndexError"
    if "\<not> str_contains from_line ''From:''"
    using assms(1-3) getitem_1_no_sep [OF that]
    by (auto simp add: Message_fields_def next_startswith_def and_then_def Let_def
          split: sum.splits dest: getitem_error)
  have date_case: "Message_fields block = Inl IndexError"
    if "\<not> str_contains date_line ''Date:''"
    using assms(1-3) getitem_1_no_sep [OF that]
    by (auto simp add: Message_fields_def next_startswith_def and_then_def Let_def
          split: sum.splits dest: getitem_error)
  have to_case: "Message_fields block = Inl IndexError \<or> Message_fields block = Inl ValueError"
    if "\<not> str_contains to_line ''CC:''"
    using assms(1-3) getitem_1_no_sep [OF that]
    by (auto simp add: Message_fields_def next_startswith_def and_then_def Let_def
          split: sum.splits dest: getitem_error py_int_error)
  show ?thesis
    using assms(4) from_case date_case to_case init by blast
qed

theorem other_case_header_raises_witness:
  "Message_init
     (str_join os_linesep [''FROM: bob'', ''Date: Mon Oct 7 16:53 1904 Fall 1904'',
                           ''CC: alice'', ''hello''])
     [] = Inl IndexError"
proof -
  let ?block = "str_join os_linesep [''FROM: bob'', ''Date: Mon Oct 7 16:53 1904 Fall 1904'',
                                     ''CC: alice'', ''hello'']"
  have f: "find (\<lambda>line. str_startswith (str_lower line) ''from:'')
             (str_split ?block os_linesep) = Some ''FROM: bob''"
    by code_simp
  have d: "find (\<lambda>line. str_startswith (str_lower line) ''date:'')
             (str_split ?block os_linesep) = Some ''Date: Mon Oct 7 16:53 1904 Fall 1904''"
    by code_simp
  have c: "find (\<lambda>line. str_startswith (str_lower line) ''cc:'')
             (str_split ?block os_linesep) = Some ''CC: alice''"
    by code_simp
  have n: "\<not> str_contains ''FROM: bob'' ''From:''"
    by code_simp
  then have h: "\<not> str_contains ''FROM: bob'' ''From:''
       \<or> \<not> str_contains ''Date: Mon Oct 7 16:53 1904 Fall 1904'' ''Date:''
       \<or> \<not> str_contains ''CC: alice'' ''CC:''"
    by blast
  show ?thesis
    using other_case_header_raises [OF f d c h, of "[]"] n by blast
qed

end
